theory Spec2Isabelle
  imports Complex_Main "HOL-Library.Multiset"
begin

section \<open>Data model\<close>

text \<open>
  Timestamps are the values of \<^verbatim>\<open>datetime.now().timestamp()\<close>, stored in \<^verbatim>\<open>REAL\<close>
  columns: IEEE 754 doubles. A double is modelled by the rational number it denotes;
  comparisons of doubles are comparisons of these rationals, and an arithmetic
  operation on doubles is the exact operation followed by the rounding of section
  \<open>Python floats\<close>. Every read of the clock in the source is an explicit argument of
  the function that embeds it, in the order in which the source reads it.
\<close>

type_synonym timestamp = rat

text \<open>
  The values the \<^verbatim>\<open>json\<close> module serialises: \<^verbatim>\<open>None\<close>, booleans, integers, floats,
  strings, lists and dictionaries with string keys. A dictionary is an association list
  in insertion order, as a Python \<^verbatim>\<open>dict\<close> is.
\<close>

datatype json =
    JNull
  | JBool bool
  | JInt int
  | JFloat real
  | JStr string
  | JArr "json list"
  | JObj "(string \<times> json) list"

type_synonym jdict = "(string \<times> json) list"

text \<open>
  A row of table \<^verbatim>\<open>sessions\<close> (src/session/session_store.py, \<^verbatim>\<open>_init_database\<close>) and
  the dictionary \<^verbatim>\<open>SessionStore.get_session\<close> builds from it have the same eight keys;
  they differ in the type of \<^verbatim>\<open>data\<close>. In a row it is the \<^verbatim>\<open>TEXT\<close> column: \<open>None\<close>
  stands for a column that is \<^verbatim>\<open>NULL\<close> or the empty string (both falsy in Python),
  \<open>Some d\<close> for the text \<^verbatim>\<open>json.dumps(d)\<close>, which \<^verbatim>\<open>json.loads\<close> reads back as \<open>d\<close>.
\<close>

record 'd session =
  session_id :: string
  user_id :: int
  created_at :: timestamp
  expires_at :: timestamp
  last_activity :: timestamp
  data :: 'd
  ip_address :: "string option"
  user_agent :: "string option"

type_synonym session_row = "jdict option session"
type_synonym session_dict = "jdict session"

text \<open>A row of table \<^verbatim>\<open>activities\<close> (src/tracking/activity_tracker.py).\<close>

record activity_row =
  act_id :: nat
  act_user_id :: int
  act_session_id :: "string option"
  event_type :: string
  event_data :: "json option"
  act_ip_address :: "string option"
  act_user_agent :: "string option"
  timestamp :: timestamp
  act_created_at :: string

text \<open>A row of table \<^verbatim>\<open>preferences\<close> (src/preferences/preference_manager.py); the
  column \<^verbatim>\<open>preferences\<close> is \<^verbatim>\<open>TEXT NOT NULL\<close> and holds a serialised document.\<close>

record preference_row =
  pref_user_id :: int
  preferences :: json
  updated_at :: string

text \<open>A row of table \<^verbatim>\<open>consent\<close> (src/compliance/gdpr_handler.py).\<close>

record consent_row =
  consent_user_id :: int
  consent_type :: string
  granted :: bool
  consent_timestamp :: timestamp

text \<open>The database file: its four tables, each the list of its rows in insertion order.\<close>

record db =
  sessions :: "session_row list"
  activities :: "activity_row list"
  preference_rows :: "preference_row list"
  consent :: "consent_row list"

datatype error = IntegrityError

section \<open>Python floats\<close>

text \<open>
  A float operation computes the exact result and rounds it to the nearest double, ties
  to the even significand. \<open>round_double\<close> is that rounding on the positive rationals
  in the range of normal doubles, where it keeps 53 significant bits; the sum of two
  doubles that falls below that range is a double itself and is left as it is by
  \<open>round_double\<close>. Overflow to infinity (a result of \<open>2 ^ 1024\<close> or more) is outside
  the model.
\<close>

text \<open>\<^verbatim>\<open>int.bit_length\<close> of a non-negative integer.\<close>

function bit_length :: "int \<Rightarrow> int" where
  "bit_length n = (if n \<le> 0 then 0 else bit_length (n div 2) + 1)"
  by pat_completeness auto
termination
  by (relation "measure nat") auto

declare bit_length.simps [simp del]

definition round_half_even :: "rat \<Rightarrow> int" where
  "round_half_even q =
     (let f = \<lfloor>q\<rfloor>; r = q - of_int f in
      if r < 1 / 2 then f
      else if 1 / 2 < r then f + 1
      else if even f then f else f + 1)"

text \<open>The exponent \<open>e\<close> with \<open>2 ^ e \<le> q < 2 ^ (e + 1)\<close>, for \<open>q > 0\<close>.\<close>

definition binade :: "rat \<Rightarrow> int" where
  "binade q =
     (case quotient_of q of
        (n, m) \<Rightarrow>
          let k = bit_length n - bit_length m in
          if power_int 2 k \<le> q then k else k - 1)"

definition round_double :: "rat \<Rightarrow> rat" where
  "round_double q =
     (if q = 0 then 0
      else let ulp = power_int 2 (binade q - 52) in
           of_int (round_half_even (q / ulp)) * ulp)"

text \<open>\<^verbatim>\<open>x + y\<close> on floats; an integer operand is converted first, exactly when it is
  below \<open>2 ^ 53\<close> in absolute value. A negative sum rounds as its absolute value
  does.\<close>

definition py_float_add :: "rat \<Rightarrow> rat \<Rightarrow> rat" where
  "py_float_add x y =
     (let s = x + y in if s < 0 then - round_double (- s) else round_double s)"

section \<open>Session store (src/session/session_store.py)\<close>

text \<open>\<^verbatim>\<open>INSERT\<close> into a table whose primary key is \<^verbatim>\<open>session_id\<close>: a second row with
  the same key raises \<^verbatim>\<open>sqlite3.IntegrityError\<close>. The store reads the clock itself
  (\<open>current_time\<close>) for \<^verbatim>\<open>created_at\<close> and \<^verbatim>\<open>last_activity\<close>.\<close>

definition store_create_session ::
  "timestamp \<Rightarrow> string \<Rightarrow> int \<Rightarrow> timestamp \<Rightarrow> string option \<Rightarrow> string option \<Rightarrow> db \<Rightarrow> error + db"
where
  "store_create_session current_time sid uid expires ip agent d =
     (if sid \<in> session_id ` set (sessions d) then Inl IntegrityError
      else Inr (d\<lparr>sessions := sessions d @
             [\<lparr>session_id = sid, user_id = uid, created_at = current_time,
               expires_at = expires, last_activity = current_time,
               data = Some [], ip_address = ip, user_agent = agent\<rparr>]\<rparr>))"

text \<open>The dictionary \<^verbatim>\<open>get_session\<close> builds from a row: it decodes the \<^verbatim>\<open>data\<close>
  column, an empty one as \<^verbatim>\<open>{}\<close>.\<close>

definition session_of_row :: "session_row \<Rightarrow> session_dict" where
  "session_of_row row =
     \<lparr>session_id = session_id row, user_id = user_id row,
      created_at = created_at row, expires_at = expires_at row,
      last_activity = last_activity row,
      data = (case data row of None \<Rightarrow> [] | Some j \<Rightarrow> j),
      ip_address = ip_address row, user_agent = user_agent row\<rparr>"

text \<open>\<^verbatim>\<open>SELECT * FROM sessions WHERE session_id = ?\<close> and \<^verbatim>\<open>fetchone\<close>.\<close>

definition store_get_session :: "string \<Rightarrow> db \<Rightarrow> session_dict option" where
  "store_get_session sid d =
     (case find (\<lambda>r. session_id r = sid) (sessions d) of
        None \<Rightarrow> None
      | Some row \<Rightarrow> Some (session_of_row row))"

text \<open>\<^verbatim>\<open>UPDATE sessions SET last_activity = ? WHERE session_id = ?\<close>\<close>

definition store_update_session_activity :: "timestamp \<Rightarrow> string \<Rightarrow> db \<Rightarrow> db" where
  "store_update_session_activity current_time sid d =
     d\<lparr>sessions := map (\<lambda>r. if session_id r = sid then r\<lparr>last_activity := current_time\<rparr> else r)
                       (sessions d)\<rparr>"

text \<open>\<^verbatim>\<open>UPDATE sessions SET data = ? WHERE session_id = ?\<close> with \<^verbatim>\<open>json.dumps(data)\<close>\<close>

definition store_set_session_data :: "string \<Rightarrow> jdict \<Rightarrow> db \<Rightarrow> db" where
  "store_set_session_data sid dat d =
     d\<lparr>sessions := map (\<lambda>r. if session_id r = sid then r\<lparr>data := Some dat\<rparr> else r)
                       (sessions d)\<rparr>"

text \<open>\<^verbatim>\<open>DELETE FROM sessions WHERE session_id = ?\<close>\<close>

definition store_delete_session :: "string \<Rightarrow> db \<Rightarrow> db" where
  "store_delete_session sid d = d\<lparr>sessions := filter (\<lambda>r. session_id r \<noteq> sid) (sessions d)\<rparr>"

section \<open>Session manager (src/session/session_manager.py)\<close>

text \<open>\<^verbatim>\<open>create_session\<close>: the token of \<^verbatim>\<open>secrets.token_urlsafe(32)\<close> is the argument
  \<open>token\<close>; \<open>now\<close> is the manager's reading of the clock, from which it computes
  \<^verbatim>\<open>expires_at\<close> by a float addition, and \<open>store_now\<close> the store's own reading, taken
  after it.\<close>

definition create_session ::
  "rat \<Rightarrow> string \<Rightarrow> timestamp \<Rightarrow> timestamp \<Rightarrow> int \<Rightarrow> string option \<Rightarrow> string option \<Rightarrow> db
     \<Rightarrow> error + (string \<times> db)"
where
  "create_session session_timeout token now store_now uid ip agent d =
     (let expires = py_float_add now session_timeout in
      case store_create_session store_now token uid expires ip agent d of
        Inl e \<Rightarrow> Inl e
      | Inr d' \<Rightarrow> Inr (token, d'))"

definition is_expired :: "timestamp \<Rightarrow> 'd session \<Rightarrow> bool" where
  "is_expired current_time s = (current_time > expires_at s)"

definition destroy_session :: "string \<Rightarrow> db \<Rightarrow> db" where
  "destroy_session sid d = store_delete_session sid d"

text \<open>\<^verbatim>\<open>get_session\<close>: \<open>now\<close> is the reading of the clock in \<^verbatim>\<open>is_expired\<close>,
  \<open>touch\<close> the later one in \<^verbatim>\<open>update_session_activity\<close>. The dictionary returned is
  the one read before the activity update.\<close>

definition get_session ::
  "timestamp \<Rightarrow> timestamp \<Rightarrow> string \<Rightarrow> db \<Rightarrow> session_dict option \<times> db"
where
  "get_session now touch sid d =
     (case store_get_session sid d of
        None \<Rightarrow> (None, d)
      | Some s \<Rightarrow>
          if is_expired now s then (None, destroy_session sid d)
          else (Some s, store_update_session_activity touch sid d))"

definition validate_session :: "timestamp \<Rightarrow> timestamp \<Rightarrow> string \<Rightarrow> db \<Rightarrow> bool \<times> db" where
  "validate_session now touch sid d =
     (case get_session now touch sid d of (s, d') \<Rightarrow> (s \<noteq> None, d'))"

text \<open>\<^verbatim>\<open>session_data[key] = value\<close> on a Python dictionary: an existing key keeps its
  place, a new one goes last (\<open>AList.update\<close> does the same).\<close>

fun dict_set :: "string \<Rightarrow> json \<Rightarrow> jdict \<Rightarrow> jdict" where
  "dict_set k v [] = [(k, v)]"
| "dict_set k v (p # ps) = (if fst p = k then (k, v) # ps else p # dict_set k v ps)"

definition dict_get :: "jdict \<Rightarrow> string \<Rightarrow> json \<Rightarrow> json" where
  "dict_get m k dflt = (case map_of m k of None \<Rightarrow> dflt | Some v \<Rightarrow> v)"

definition set_session_data :: "string \<Rightarrow> string \<Rightarrow> json \<Rightarrow> db \<Rightarrow> db" where
  "set_session_data sid k v d =
     (case store_get_session sid d of
        None \<Rightarrow> d
      | Some s \<Rightarrow> store_set_session_data sid (dict_set k v (data s)) d)"

definition get_session_data :: "string \<Rightarrow> string \<Rightarrow> json \<Rightarrow> db \<Rightarrow> json \<times> db" where
  "get_session_data sid k dflt d =
     (case store_get_session sid d of
        None \<Rightarrow> (dflt, d)
      | Some s \<Rightarrow> (dict_get (data s) k dflt, d))"

section \<open>Behavioural tracker (src/tracking/behavioral_tracker.py)\<close>

text \<open>An element of the list \<^verbatim>\<open>get_user_journey\<close> returns.\<close>

record journey_event =
  je_event_type :: string
  je_event_data :: json
  je_timestamp :: timestamp

text \<open>The dictionary built from a selected row; an empty \<^verbatim>\<open>event_data\<close> column reads
  as \<^verbatim>\<open>{}\<close>.\<close>

definition journey_entry :: "activity_row \<Rightarrow> journey_event" where
  "journey_entry row =
     \<lparr>je_event_type = event_type row,
      je_event_data = (case event_data row of None \<Rightarrow> JObj [] | Some j \<Rightarrow> j),
      je_timestamp = timestamp row\<rparr>"

text \<open>
  \<^verbatim>\<open>get_user_journey(user_id, session_id=None)\<close>. The test \<^verbatim>\<open>if session_id:\<close> is
  Python truthiness: \<^verbatim>\<open>None\<close> and the empty string both select the unscoped query.
  \<^verbatim>\<open>ORDER BY timestamp ASC\<close> is a sort by timestamp that keeps rows of equal timestamp
  in table order; \<^verbatim>\<open>session_id = ?\<close> never matches a \<^verbatim>\<open>NULL\<close> column.
\<close>

definition get_user_journey :: "int \<Rightarrow> string option \<Rightarrow> db \<Rightarrow> journey_event list" where
  "get_user_journey uid sid d =
     (let rows =
        (case sid of
           Some s \<Rightarrow>
             if s \<noteq> [] then
               sort_key timestamp
                 (filter (\<lambda>a. act_user_id a = uid \<and> act_session_id a = Some s) (activities d))
             else
               take 100 (sort_key timestamp (filter (\<lambda>a. act_user_id a = uid) (activities d)))
         | None \<Rightarrow>
             take 100 (sort_key timestamp (filter (\<lambda>a. act_user_id a = uid) (activities d))))
      in map journey_entry rows)"

section \<open>Activity analytics (src/analytics/activity_analytics.py)\<close>

subsection \<open>Python's float arithmetic and formatting\<close>

text \<open>
  The conversion rate is \<^verbatim>\<open>(a / b) * 100\<close> on two counts, printed with \<^verbatim>\<open>:.2f\<close>: a
  true division of integers and a float multiplication, each rounded to the nearest
  IEEE 754 double with ties to even, then a decimal rounding of the exact binary value,
  again with ties to even. A double is modelled by the rational it denotes. The counts
  are SQLite integers (below \<open>2 ^ 63\<close>), so every value here lies in the range of
  normal doubles, where rounding keeps 53 significant bits.
\<close>

definition py_true_divide :: "nat \<Rightarrow> nat \<Rightarrow> rat" where
  "py_true_divide a b = round_double (of_nat a / of_nat b)"

definition py_float_mul :: "rat \<Rightarrow> rat \<Rightarrow> rat" where
  "py_float_mul x y = round_double (x * y)"

text \<open>The decimal digits of a non-negative integer.\<close>

definition digit_char :: "int \<Rightarrow> char" where
  "digit_char n = ''0123456789'' ! nat n"

function decimal :: "int \<Rightarrow> string" where
  "decimal n = (if n < 10 then [digit_char n] else decimal (n div 10) @ [digit_char (n mod 10)])"
  by pat_completeness auto
termination
  by (relation "measure nat") auto

declare decimal.simps [simp del]

text \<open>\<^verbatim>\<open>f"{x:.2f}"\<close> for \<open>x \<ge> 0\<close>.\<close>

definition format_2f :: "rat \<Rightarrow> string" where
  "format_2f x =
     (let n = round_half_even (x * 100) in
      decimal (n div 100) @ ''.'' @ [digit_char (n mod 100 div 10), digit_char (n mod 10)])"

subsection \<open>The funnel\<close>

record funnel_entry =
  step :: string
  users :: nat
  conversion_rate :: "string option"

text \<open>\<^verbatim>\<open>SELECT COUNT(DISTINCT user_id) FROM activities WHERE event_type = ?\<close>\<close>

definition count_distinct_users :: "string \<Rightarrow> db \<Rightarrow> nat" where
  "count_distinct_users s d =
     length (remdups (map act_user_id (filter (\<lambda>a. event_type a = s) (activities d))))"

text \<open>The body of the loop \<^verbatim>\<open>for i in range(1, len(funnel))\<close>; an entry without the
  key \<^verbatim>\<open>conversion_rate\<close> has \<open>None\<close> there.\<close>

definition funnel_rate_step :: "nat \<Rightarrow> funnel_entry list \<Rightarrow> funnel_entry list" where
  "funnel_rate_step i funnel =
     (if users (funnel ! (i - 1)) > 0 then
        let rate = py_float_mul (py_true_divide (users (funnel ! i)) (users (funnel ! (i - 1)))) 100
        in funnel[i := (funnel ! i)\<lparr>conversion_rate := Some (format_2f rate @ ''%'')\<rparr>]
      else funnel)"

definition get_conversion_funnel :: "string list \<Rightarrow> db \<Rightarrow> funnel_entry list" where
  "get_conversion_funnel steps d =
     (let funnel = map (\<lambda>s. \<lparr>step = s, users = count_distinct_users s d, conversion_rate = None\<rparr>) steps
      in fold funnel_rate_step [1..<length funnel] funnel)"

section \<open>Data retention (src/compliance/data_retention.py)\<close>

text \<open>Each deletion reads the clock itself (\<open>now\<close>) and returns \<^verbatim>\<open>cursor.rowcount\<close>.\<close>

definition delete_old_activities :: "int \<Rightarrow> timestamp \<Rightarrow> db \<Rightarrow> nat \<times> db" where
  "delete_old_activities retention_days now d =
     (let cutoff_time = now - of_int (retention_days * 24 * 60 * 60) in
      (length (filter (\<lambda>a. timestamp a < cutoff_time) (activities d)),
       d\<lparr>activities := filter (\<lambda>a. \<not> timestamp a < cutoff_time) (activities d)\<rparr>))"

definition delete_old_sessions :: "int \<Rightarrow> timestamp \<Rightarrow> db \<Rightarrow> nat \<times> db" where
  "delete_old_sessions retention_days now d =
     (let cutoff_time = now - of_int (retention_days * 24 * 60 * 60) in
      (length (filter (\<lambda>r. created_at r < cutoff_time) (sessions d)),
       d\<lparr>sessions := filter (\<lambda>r. \<not> created_at r < cutoff_time) (sessions d)\<rparr>))"

record retention_summary =
  activities_deleted :: nat
  sessions_deleted :: nat
  summary_retention_days :: int
  applied_at :: timestamp

text \<open>\<^verbatim>\<open>apply_retention_policy\<close>: three readings of the clock, one in each deletion and
  one for \<^verbatim>\<open>applied_at\<close> (kept as the reading, not as its ISO text).\<close>

definition apply_retention_policy ::
  "int \<Rightarrow> timestamp \<Rightarrow> timestamp \<Rightarrow> timestamp \<Rightarrow> db \<Rightarrow> retention_summary \<times> db"
where
  "apply_retention_policy retention_days now_activities now_sessions now_summary d =
     (case delete_old_activities retention_days now_activities d of
        (n_act, d1) \<Rightarrow>
          (case delete_old_sessions retention_days now_sessions d1 of
             (n_ses, d2) \<Rightarrow>
               (\<lparr>activities_deleted = n_act, sessions_deleted = n_ses,
                 summary_retention_days = retention_days, applied_at = now_summary\<rparr>, d2)))"

section \<open>GDPR handler (src/compliance/gdpr_handler.py)\<close>

record export_data =
  export_user_id :: int
  export_date :: timestamp
  export_sessions :: "session_row list"
  export_activities :: "activity_row list"
  export_preferences :: json
  export_consent :: "consent_row list"

definition export_user_data :: "int \<Rightarrow> timestamp \<Rightarrow> db \<Rightarrow> export_data" where
  "export_user_data uid now d =
     \<lparr>export_user_id = uid,
      export_date = now,
      export_sessions = filter (\<lambda>r. user_id r = uid) (sessions d),
      export_activities = filter (\<lambda>a. act_user_id a = uid) (activities d),
      export_preferences =
        (case find (\<lambda>p. pref_user_id p = uid) (preference_rows d) of
           Some pref_row \<Rightarrow> preferences pref_row
         | None \<Rightarrow> JObj []),
      export_consent = filter (\<lambda>c. consent_user_id c = uid) (consent d)\<rparr>"

record deletion_summary =
  deleted_user_id :: int
  gdpr_sessions_deleted :: nat
  gdpr_activities_deleted :: nat
  preferences_deleted :: nat
  consent_deleted :: nat
  deleted_at :: timestamp

definition delete_user_data :: "int \<Rightarrow> timestamp \<Rightarrow> db \<Rightarrow> deletion_summary \<times> db" where
  "delete_user_data uid now d =
     (\<lparr>deleted_user_id = uid,
       gdpr_sessions_deleted = length (filter (\<lambda>r. user_id r = uid) (sessions d)),
       gdpr_activities_deleted = length (filter (\<lambda>a. act_user_id a = uid) (activities d)),
       preferences_deleted = length (filter (\<lambda>p. pref_user_id p = uid) (preference_rows d)),
       consent_deleted = length (filter (\<lambda>c. consent_user_id c = uid) (consent d)),
       deleted_at = now\<rparr>,
      d\<lparr>sessions := filter (\<lambda>r. user_id r \<noteq> uid) (sessions d),
        activities := filter (\<lambda>a. act_user_id a \<noteq> uid) (activities d),
        preference_rows := filter (\<lambda>p. pref_user_id p \<noteq> uid) (preference_rows d),
        consent := filter (\<lambda>c. consent_user_id c \<noteq> uid) (consent d)\<rparr>)"

section \<open>Sequences of session operations\<close>

text \<open>
  The operations that reach a stored session record after its creation: the manager's
  \<^verbatim>\<open>get_session\<close>, \<^verbatim>\<open>validate_session\<close>, \<^verbatim>\<open>set_session_data\<close> and \<^verbatim>\<open>get_session_data\<close>,
  and the store's \<^verbatim>\<open>update_session_activity\<close> (activity refresh) and
  \<^verbatim>\<open>set_session_data\<close> (data write). Each carries its arguments and the readings of
  the clock it makes, in order.
\<close>

datatype session_op =
    OpGet timestamp timestamp string
  | OpValidate timestamp timestamp string
  | OpSetData string string json
  | OpGetData string string json
  | OpUpdateActivity timestamp string
  | OpStoreSetData string jdict

fun exec_op :: "session_op \<Rightarrow> db \<Rightarrow> db" where
  "exec_op (OpGet now touch sid) d = snd (get_session now touch sid d)"
| "exec_op (OpValidate now touch sid) d = snd (validate_session now touch sid d)"
| "exec_op (OpSetData sid k v) d = set_session_data sid k v d"
| "exec_op (OpGetData sid k dflt) d = snd (get_session_data sid k dflt d)"
| "exec_op (OpUpdateActivity now sid) d = store_update_session_activity now sid d"
| "exec_op (OpStoreSetData sid dat) d = store_set_session_data sid dat d"

fun clock_readings :: "session_op \<Rightarrow> timestamp list" where
  "clock_readings (OpGet now touch sid) = [now, touch]"
| "clock_readings (OpValidate now touch sid) = [now, touch]"
| "clock_readings (OpSetData sid k v) = []"
| "clock_readings (OpGetData sid k dflt) = []"
| "clock_readings (OpUpdateActivity now sid) = [now]"
| "clock_readings (OpStoreSetData sid dat) = []"

definition exec_ops :: "session_op list \<Rightarrow> db \<Rightarrow> db" where
  "exec_ops ops d = fold exec_op ops d"

section \<open>Example databases\<close>

definition empty_db :: db where
  "empty_db = \<lparr>sessions = [], activities = [], preference_rows = [], consent = []\<rparr>"

text \<open>A session of user 1 created at time 100 with timeout 3600, holding the cart of
  the repository's test \<^verbatim>\<open>test_04_session_state_management\<close>.\<close>

definition cart :: json where
  "cart = JObj [(''items'', JArr [JStr ''Product1'']), (''total'', JFloat (9999 / 100))]"

definition session_s1 :: session_row where
  "session_s1 =
     \<lparr>session_id = ''s1'', user_id = 1, created_at = 100, expires_at = 3700,
      last_activity = 100, data = Some [(''cart'', cart)],
      ip_address = Some ''192.168.1.100'', user_agent = None\<rparr>"

definition session_db :: db where
  "session_db = \<lparr>sessions = [session_s1], activities = [], preference_rows = [], consent = []\<rparr>"

text \<open>The database after \<^verbatim>\<open>create_session\<close> with timeout 10 on the empty database,
  when the manager reads the clock at 0 and the store reads it at 1.\<close>

definition late_store_db :: db where
  "late_store_db =
     \<lparr>sessions = [\<lparr>session_id = ''tok'', user_id = 7, created_at = 1, expires_at = 10,
                    last_activity = 1, data = Some [], ip_address = None, user_agent = None\<rparr>],
      activities = [], preference_rows = [], consent = []\<rparr>"

text \<open>Two runs of operations on session \<open>s1\<close>, with clock readings in order.\<close>

text \<open>The same with timeout \<^verbatim>\<open>0.2\<close>, the double \<open>3602879701896397 / 2 ^ 54\<close>, when the
  manager reads the clock at 1700000000 and the store \<open>1 / 1024\<close> later: the float sum
  is \<open>1700000000 + 838861 / 2 ^ 22\<close>.\<close>

definition float_sum_db :: db where
  "float_sum_db =
     \<lparr>sessions = [\<lparr>session_id = ''tok'', user_id = 7, created_at = 1700000000 + 1 / 1024,
                    expires_at = 1700000000 + 838861 / 4194304,
                    last_activity = 1700000000 + 1 / 1024, data = Some [],
                    ip_address = None, user_agent = None\<rparr>],
      activities = [], preference_rows = [], consent = []\<rparr>"

definition ops_before :: "session_op list" where
  "ops_before = [OpGet 200 201 ''s1'', OpSetData ''s1'' ''k'' (JInt 1)]"

definition ops_after :: "session_op list" where
  "ops_after = [OpUpdateActivity 300 ''s1'', OpStoreSetData ''s1'' [], OpGetData ''s1'' ''k'' JNull,
                OpValidate 400 401 ''s1'']"

text \<open>Activities for a funnel: ten users view, four of them put something in the cart
  (two of them twice), two of them buy.\<close>

definition event :: "nat \<Rightarrow> int \<Rightarrow> string option \<Rightarrow> string \<Rightarrow> timestamp \<Rightarrow> activity_row" where
  "event i uid sid ty ts =
     \<lparr>act_id = i, act_user_id = uid, act_session_id = sid, event_type = ty, event_data = None,
      act_ip_address = None, act_user_agent = None, timestamp = ts,
      act_created_at = ''2024-01-01 00:00:00''\<rparr>"

definition funnel_db :: db where
  "funnel_db =
     \<lparr>sessions = [],
      activities =
        map (\<lambda>u. event (nat u) u None ''view'' 1) [1, 2, 3, 4, 5, 6, 7, 8, 9, 10]
        @ map (\<lambda>u. event (nat (10 + u)) u None ''cart'' 2) [1, 2, 3, 4, 1, 2]
        @ map (\<lambda>u. event (nat (20 + u)) u None ''buy'' 3) [1, 2],
      preference_rows = [], consent = []\<rparr>"

text \<open>Activities of two users in two sessions, inserted out of timestamp order.\<close>

definition journey_db :: db where
  "journey_db =
     \<lparr>sessions = [],
      activities =
        [event 1 1 (Some ''abc'') ''page_view'' 30,
         event 2 1 (Some ''abc'') ''login'' 10,
         event 3 1 (Some ''xyz'') ''click'' 20,
         event 4 2 (Some ''abc'') ''login'' 5],
      preference_rows = [], consent = []\<rparr>"

text \<open>Sessions and activities just before, at and after a cutoff of 1000.\<close>

definition retention_db :: db where
  "retention_db =
     \<lparr>sessions =
        [session_s1\<lparr>session_id := ''old'', created_at := 999\<rparr>,
         session_s1\<lparr>session_id := ''edge'', created_at := 1000\<rparr>,
         session_s1\<lparr>session_id := ''new'', created_at := 5000\<rparr>],
      activities =
        [event 1 1 None ''login'' 999, event 2 1 None ''click'' 1000, event 3 2 None ''login'' 999.5],
      preference_rows = [], consent = []\<rparr>"

text \<open>A database where every table holds a row of user 1 and none of user 42.\<close>

definition gdpr_db :: db where
  "gdpr_db =
     \<lparr>sessions = [session_s1],
      activities = [event 1 1 (Some ''s1'') ''login'' 100],
      preference_rows =
        [\<lparr>pref_user_id = 1, preferences = JObj [(''theme'', JStr ''dark'')],
          updated_at = ''2024-01-01 00:00:00''\<rparr>],
      consent =
        [\<lparr>consent_user_id = 1, consent_type = ''analytics'', granted = True,
          consent_timestamp = 50\<rparr>]\<rparr>"

section \<open>Lemmas about the store\<close>

lemma session_of_row_simps [simp]:
  "session_id (session_of_row r) = session_id r"
  "user_id (session_of_row r) = user_id r"
  "created_at (session_of_row r) = created_at r"
  "expires_at (session_of_row r) = expires_at r"
  "last_activity (session_of_row r) = last_activity r"
  "data (session_of_row r) = (case data r of None \<Rightarrow> [] | Some j \<Rightarrow> j)"
  by (simp_all add: session_of_row_def)

lemma store_get_session_find:
  "store_get_session sid d = map_option session_of_row (find (\<lambda>r. session_id r = sid) (sessions d))"
  by (simp add: store_get_session_def split: option.splits)

lemma find_map_keep:
  assumes "\<And>x. P (f x) = P x"
  shows "find P (map f xs) = map_option f (find P xs)"
  using assms by (induction xs) auto

lemma find_Some_holds: "find P xs = Some x \<Longrightarrow> P x"
  by (induction xs) (auto split: if_splits)

lemma find_filter_other:
  assumes "\<And>x. P x \<Longrightarrow> Q x"
  shows "find P (filter Q xs) = find P xs"
  using assms by (induction xs) auto

lemma find_filter_none:
  assumes "\<And>x. P x \<Longrightarrow> \<not> Q x"
  shows "find P (filter Q xs) = None"
  using assms by (induction xs) auto

lemma store_get_session_None_iff:
  "store_get_session sid d = None \<longleftrightarrow> (\<forall>r \<in> set (sessions d). session_id r \<noteq> sid)"
  by (auto simp: store_get_session_find find_None_iff)

lemma find_append_None:
  "find P xs = None \<Longrightarrow> find P (xs @ ys) = find P ys"
  by (induction xs) (auto split: if_splits)

lemma store_create_session_fresh:
  assumes "store_get_session token d = None"
  shows "store_create_session store_now token uid expires ip agent d =
           Inr (d\<lparr>sessions := sessions d @
             [\<lparr>session_id = token, user_id = uid, created_at = store_now,
               expires_at = expires, last_activity = store_now,
               data = Some [], ip_address = ip, user_agent = agent\<rparr>]\<rparr>)"
  using assms by (auto simp: store_create_session_def store_get_session_None_iff)

lemma store_get_session_appended:
  assumes "store_get_session token d = None" and "session_id r = token"
  shows "store_get_session token (d\<lparr>sessions := sessions d @ [r]\<rparr>) = Some (session_of_row r)"
proof -
  from assms(1) have "find (\<lambda>r. session_id r = token) (sessions d) = None"
    by (simp add: store_get_session_def split: option.splits)
  then show ?thesis
    using assms(2) by (simp add: store_get_session_def find_append_None)
qed

lemma store_get_session_delete:
  "store_get_session sid (store_delete_session sid' d) =
     (if sid = sid' then None else store_get_session sid d)"
proof (cases "sid = sid'")
  case True
  then show ?thesis
    by (simp add: store_get_session_find store_delete_session_def find_filter_none)
next
  case False
  then have "find (\<lambda>r. session_id r = sid) (filter (\<lambda>r. session_id r \<noteq> sid') (sessions d)) =
               find (\<lambda>r. session_id r = sid) (sessions d)"
    by (intro find_filter_other) simp
  with False show ?thesis
    by (simp add: store_get_session_find store_delete_session_def)
qed

lemma store_get_session_update_activity:
  "store_get_session sid (store_update_session_activity t sid' d) =
     map_option (\<lambda>s. if sid = sid' then s\<lparr>last_activity := t\<rparr> else s) (store_get_session sid d)"
proof -
  let ?f = "\<lambda>r::session_row. if session_id r = sid' then r\<lparr>last_activity := t\<rparr> else r"
  have "find (\<lambda>r. session_id r = sid) (map ?f (sessions d)) =
          map_option ?f (find (\<lambda>r. session_id r = sid) (sessions d))"
    by (rule find_map_keep) simp
  then show ?thesis
    by (cases "find (\<lambda>r. session_id r = sid) (sessions d)")
       (auto simp: store_get_session_find store_update_session_activity_def session_of_row_def
             dest: find_Some_holds)
qed

lemma store_get_session_set_data:
  "store_get_session sid (store_set_session_data sid' dat d) =
     map_option (\<lambda>s. if sid = sid' then s\<lparr>data := dat\<rparr> else s) (store_get_session sid d)"
proof -
  let ?f = "\<lambda>r::session_row. if session_id r = sid' then r\<lparr>data := Some dat\<rparr> else r"
  have "find (\<lambda>r. session_id r = sid) (map ?f (sessions d)) =
          map_option ?f (find (\<lambda>r. session_id r = sid) (sessions d))"
    by (rule find_map_keep) simp
  then show ?thesis
    by (cases "find (\<lambda>r. session_id r = sid) (sessions d)")
       (auto simp: store_get_session_find store_set_session_data_def session_of_row_def
             dest: find_Some_holds)
qed

lemma map_of_dict_set: "map_of (dict_set k v m) = (map_of m)(k \<mapsto> v)"
  by (induction m) auto

lemma dict_get_dict_set: "dict_get (dict_set k v m) k dflt = v"
  by (simp add: dict_get_def map_of_dict_set)

section \<open>Lemmas about float rounding\<close>

text \<open>The rounding functions are what their names say: \<open>bit_length\<close> brackets its
  argument between two powers of two, \<open>binade\<close> is the binary exponent, and
  \<open>round_double\<close> moves a positive rational by at most half a unit in the 53rd
  significant bit.\<close>

lemma bit_length_nonneg: "0 \<le> bit_length n"
proof (induction n rule: bit_length.induct)
  case (1 n)
  then show ?case
    by (cases "n \<le> 0") (simp_all add: bit_length.simps [of n])
qed

lemma bit_length_pos: "0 < n \<Longrightarrow> 1 \<le> bit_length n"
  using bit_length_nonneg [of "n div 2"] by (simp add: bit_length.simps [of n])

lemma bit_length_bounds:
  "0 < n \<Longrightarrow> 2 ^ nat (bit_length n - 1) \<le> n \<and> n < 2 ^ nat (bit_length n)"
proof (induction n rule: bit_length.induct)
  case (1 n)
  show ?case
  proof (cases "n div 2 \<le> 0")
    case True
    with "1.prems" have "n = 1"
      by linarith
    then show ?thesis
      by (simp add: bit_length.simps [of 1] bit_length.simps [of 0])
  next
    case False
    then have h: "0 < n div 2"
      by simp
    with "1.IH" "1.prems" have ih: "2 ^ nat (bit_length (n div 2) - 1) \<le> n div 2"
      "n div 2 < 2 ^ nat (bit_length (n div 2))"
      by simp_all
    from bit_length_pos [OF h] have p: "1 \<le> bit_length (n div 2)" .
    have b: "bit_length n = bit_length (n div 2) + 1"
      using "1.prems" by (simp add: bit_length.simps [of n])
    from p have e1: "nat (bit_length n - 1) = Suc (nat (bit_length (n div 2) - 1))"
      unfolding b by simp
    from p have e2: "nat (bit_length n) = Suc (nat (bit_length (n div 2)))"
      unfolding b by simp
    from ih show ?thesis
      unfolding e1 e2 by (simp, linarith)
  qed
qed


lemma binade_bounds:
  assumes "0 < q"
  shows "power_int 2 (binade q) \<le> q \<and> q < power_int 2 (binade q + 1)"
proof -
  obtain n m where nm: "quotient_of q = (n, m)"
    by (cases "quotient_of q")
  then have m: "0 < m" and q: "q = of_int n / of_int m"
    by (simp_all add: quotient_of_denom_pos quotient_of_div)
  with assms have n: "0 < n"
    by (simp add: zero_less_divide_iff)
  let ?a = "bit_length n" and ?b = "bit_length m"
  let ?k = "?a - ?b"
  from bit_length_bounds [OF n] bit_length_bounds [OF m] bit_length_pos [OF n] bit_length_pos [OF m]
  have bn: "2 ^ nat (?a - 1) \<le> n" "n < 2 ^ nat ?a"
    and bm: "2 ^ nat (?b - 1) \<le> m" "m < 2 ^ nat ?b"
    and pa: "1 \<le> ?a" and pb: "1 \<le> ?b"
    by simp_all
  define A B where "A = nat (?a - 1)" and "B = nat (?b - 1)"
  with pa pb have ab: "?a = int A + 1" "?b = int B + 1" "nat ?a = Suc A" "nat ?b = Suc B"
    by simp_all
  from pa have sa: "nat ?a = Suc (nat (?a - 1))"
    by simp
  from bn have "2 ^ A \<le> n" "n < 2 ^ Suc A"
    unfolding A_def sa by simp_all
  then have "(of_int (2 ^ A) :: rat) \<le> of_int n" "(of_int n :: rat) < of_int (2 ^ Suc A)"
    by (simp_all only: of_int_le_iff of_int_less_iff)
  then have rn: "(2::rat) ^ A \<le> of_int n" "of_int n < (2::rat) ^ Suc A"
    by simp_all
  from pb have sb: "nat ?b = Suc (nat (?b - 1))"
    by simp
  from bm have "2 ^ B \<le> m" "m < 2 ^ Suc B"
    unfolding B_def sb by simp_all
  then have "(of_int (2 ^ B) :: rat) \<le> of_int m" "(of_int m :: rat) < of_int (2 ^ Suc B)"
    by (simp_all only: of_int_le_iff of_int_less_iff)
  then have rm: "(2::rat) ^ B \<le> of_int m" "of_int m < (2::rat) ^ Suc B"
    by simp_all
  have mpos: "(0::rat) < of_int m"
    using m by simp
  have npos: "(0::rat) < of_int n"
    using n by simp
  have pk: "power_int (2::rat) ?k = 2 ^ A / 2 ^ B"
    unfolding ab by (simp add: power_int_diff power_int_add)
  have pk1: "power_int (2::rat) (?k - 1) = 2 ^ A / 2 ^ Suc B"
    unfolding ab by (simp add: power_int_diff power_int_add)
  have pk2: "power_int (2::rat) (?k + 1) = 2 ^ Suc A / 2 ^ B"
    unfolding ab by (simp add: power_int_diff power_int_add)
  have "(2::rat) ^ A * of_int m < of_int n * 2 ^ Suc B"
  proof -
    have "(2::rat) ^ A * of_int m \<le> of_int n * of_int m"
      using rn(1) mpos by (simp add: mult_right_mono)
    also have "\<dots> < of_int n * 2 ^ Suc B"
      using rm(2) npos by (simp only: mult_strict_left_mono)
    finally show ?thesis .
  qed
  then have lo: "power_int (2::rat) (?k - 1) < q"
    unfolding pk1 q using mpos by (simp add: field_simps)
  have "of_int n * (2::rat) ^ B < 2 ^ Suc A * of_int m"
  proof -
    have "of_int n * (2::rat) ^ B \<le> of_int n * of_int m"
      using rm(1) npos by (simp add: mult_left_mono)
    also have "\<dots> < 2 ^ Suc A * of_int m"
      using rn(2) mpos by (simp only: mult_strict_right_mono)
    finally show ?thesis .
  qed
  then have hi: "q < power_int (2::rat) (?k + 1)"
    unfolding pk2 q using mpos by (simp add: field_simps)
  have le: "power_int (2::rat) (?k - 1) \<le> power_int 2 ?k"
    by (rule power_int_increasing) simp_all
  have b: "binade q = (if power_int 2 ?k \<le> q then ?k else ?k - 1)"
    by (simp add: binade_def nm Let_def)
  show ?thesis
  proof (cases "power_int 2 ?k \<le> q")
    case True
    with b hi show ?thesis
      by simp
  next
    case False
    with b lo show ?thesis
      by simp
  qed
qed

lemma round_half_even_nearest: "\<bar>of_int (round_half_even x) - x\<bar> \<le> 1 / 2"
proof -
  have "of_int \<lfloor>x\<rfloor> \<le> x" "x < of_int \<lfloor>x\<rfloor> + 1"
    by linarith+
  then show ?thesis
    by (auto simp: round_half_even_def Let_def)
qed

lemma round_double_nearest:
  assumes "0 < q"
  shows "\<bar>round_double q - q\<bar> \<le> power_int 2 (binade q - 53)"
proof -
  let ?ulp = "power_int (2::rat) (binade q - 52)"
  have u: "0 < ?ulp"
    by (simp add: zero_less_power_int)
  have h: "power_int (2::rat) (binade q - 53) = ?ulp / 2"
    by (simp add: power_int_diff)
  have s: "m * v - q = (m - q / v) * v" if "0 < v" for m v :: rat
    using that by (simp add: field_simps)
  have "round_double q - q = (of_int (round_half_even (q / ?ulp)) - q / ?ulp) * ?ulp"
    using assms s [OF u] by (simp add: round_double_def Let_def)
  then have "\<bar>round_double q - q\<bar> = \<bar>of_int (round_half_even (q / ?ulp)) - q / ?ulp\<bar> * ?ulp"
    using u by (simp only: abs_mult abs_of_pos)
  also have "\<dots> \<le> 1 / 2 * ?ulp"
    using round_half_even_nearest [of "q / ?ulp"] u by (simp only: mult_right_mono less_imp_le)
  finally show ?thesis
    unfolding h by simp
qed

text \<open>Rounding is monotone, and so is float addition in its first operand.\<close>

lemma round_half_even_floor:
  "round_half_even x = \<lfloor>x\<rfloor> \<or> round_half_even x = \<lfloor>x\<rfloor> + 1"
  by (simp add: round_half_even_def Let_def)

lemma round_half_even_of_int: "round_half_even (of_int n) = n"
  by (simp add: round_half_even_def)

lemma round_half_even_mono:
  assumes "x \<le> y"
  shows "round_half_even x \<le> round_half_even y"
proof (cases "\<lfloor>x\<rfloor> = \<lfloor>y\<rfloor>")
  case True
  with assms show ?thesis
    by (auto simp: round_half_even_def Let_def)
next
  case False
  with assms have "\<lfloor>x\<rfloor> + 1 \<le> \<lfloor>y\<rfloor>"
    using floor_mono [of x y] by linarith
  moreover have "round_half_even x \<le> \<lfloor>x\<rfloor> + 1"
    using round_half_even_floor [of x] by linarith
  moreover have "\<lfloor>y\<rfloor> \<le> round_half_even y"
    using round_half_even_floor [of y] by linarith
  ultimately show ?thesis
    by linarith
qed

lemma binade_mono:
  assumes "0 < q" and "q \<le> q'"
  shows "binade q \<le> binade q'"
proof (rule ccontr)
  assume "\<not> binade q \<le> binade q'"
  then have "binade q' + 1 \<le> binade q"
    by simp
  then have "power_int (2::rat) (binade q' + 1) \<le> power_int 2 (binade q)"
    by (rule power_int_increasing) simp
  also have "\<dots> \<le> q"
    using binade_bounds [OF assms(1)] by simp
  also note assms(2)
  also have "q' < power_int 2 (binade q' + 1)"
    using binade_bounds [of q'] assms by simp
  finally show False
    by simp
qed

lemma round_double_bounds:
  assumes "0 < q"
  shows "power_int 2 (binade q) \<le> round_double q \<and> round_double q \<le> power_int 2 (binade q + 1)"
proof -
  let ?e = "binade q"
  let ?ulp = "power_int (2::rat) (?e - 52)"
  have u: "0 < ?ulp"
    by (simp add: zero_less_power_int)
  have lo: "power_int 2 ?e = of_int (2 ^ 52) * ?ulp"
    by (simp add: power_int_diff)
  have hi: "power_int 2 (?e + 1) = of_int (2 ^ 53) * ?ulp"
    by (simp add: power_int_diff power_int_add)
  from binade_bounds [OF assms] have b: "power_int 2 ?e \<le> q" "q < power_int 2 (?e + 1)"
    by simp_all
  from b(1) u have "of_int (2 ^ 52) \<le> q / ?ulp"
    unfolding lo by (simp add: pos_le_divide_eq)
  from round_half_even_mono [OF this] have l: "2 ^ 52 \<le> round_half_even (q / ?ulp)"
    by (simp only: round_half_even_of_int)
  from b(2) u have "q / ?ulp \<le> of_int (2 ^ 53)"
    unfolding hi by (simp add: pos_divide_le_eq)
  from round_half_even_mono [OF this] have h: "round_half_even (q / ?ulp) \<le> 2 ^ 53"
    by (simp only: round_half_even_of_int)
  have r: "round_double q = of_int (round_half_even (q / ?ulp)) * ?ulp"
    using assms by (simp add: round_double_def Let_def)
  from l have "(of_int (2 ^ 52) :: rat) \<le> of_int (round_half_even (q / ?ulp))"
    by (simp only: of_int_le_iff)
  then have 1: "power_int 2 ?e \<le> round_double q"
    unfolding lo r using u by (simp only: mult_right_mono less_imp_le)
  from h have "(of_int (round_half_even (q / ?ulp)) :: rat) \<le> of_int (2 ^ 53)"
    by (simp only: of_int_le_iff)
  then have 2: "round_double q \<le> power_int 2 (?e + 1)"
    unfolding hi r using u by (simp only: mult_right_mono less_imp_le)
  from 1 2 show ?thesis ..
qed

lemma round_double_pos:
  assumes "0 < q"
  shows "0 < round_double q"
proof -
  have "(0::rat) < power_int 2 (binade q)"
    by (simp add: zero_less_power_int)
  with round_double_bounds [OF assms] show ?thesis
    by linarith
qed

lemma round_double_mono_pos:
  assumes "0 < q" and "q \<le> q'"
  shows "round_double q \<le> round_double q'"
proof (cases "binade q = binade q'")
  case True
  let ?ulp = "power_int (2::rat) (binade q' - 52)"
  have u: "0 < ?ulp"
    by (simp add: zero_less_power_int)
  from assms u have "q / ?ulp \<le> q' / ?ulp"
    by (simp add: divide_right_mono)
  from round_half_even_mono [OF this]
  have "(of_int (round_half_even (q / ?ulp)) :: rat) \<le> of_int (round_half_even (q' / ?ulp))"
    by (simp only: of_int_le_iff)
  then have "of_int (round_half_even (q / ?ulp)) * ?ulp \<le> of_int (round_half_even (q' / ?ulp)) * ?ulp"
    using u by (simp only: mult_right_mono less_imp_le)
  with assms True show ?thesis
    by (simp add: round_double_def Let_def)
next
  case False
  with binade_mono [OF assms] have "binade q + 1 \<le> binade q'"
    by simp
  then have "power_int (2::rat) (binade q + 1) \<le> power_int 2 (binade q')"
    by (rule power_int_increasing) simp
  moreover from assms have "0 < q'"
    by simp
  ultimately show ?thesis
    using round_double_bounds [OF assms(1)] round_double_bounds [of q'] by linarith
qed

lemma round_double_zero: "round_double 0 = 0"
  by (simp add: round_double_def)

lemma py_float_add_mono:
  assumes "x \<le> x'"
  shows "py_float_add x y \<le> py_float_add x' y"
proof -
  let ?s = "x + y" and ?s' = "x' + y"
  from assms have le: "?s \<le> ?s'"
    by simp
  consider "?s' < 0" | "?s < 0" "0 \<le> ?s'" | "0 \<le> ?s"
    by linarith
  then show ?thesis
  proof cases
    case 1
    with le have n: "?s < 0" "0 < - ?s'" "- ?s' \<le> - ?s"
      by simp_all
    from round_double_mono_pos [OF n(2,3)] 1 n(1) show ?thesis
      by (simp add: py_float_add_def Let_def)
  next
    case 2
    have "0 \<le> round_double ?s'"
      using round_double_pos [of ?s'] 2(2) by (cases "?s' = 0") (simp_all add: round_double_zero)
    moreover have "0 < round_double (- ?s)"
      using 2(1) by (intro round_double_pos) simp
    ultimately show ?thesis
      using 2 by (simp add: py_float_add_def Let_def)
  next
    case 3
    show ?thesis
    proof (cases "?s = 0")
      case True
      have "0 \<le> round_double ?s'"
        using round_double_pos [of ?s'] le True by (cases "?s' = 0") (simp_all add: round_double_zero)
      with True le show ?thesis
        by (simp add: py_float_add_def Let_def round_double_zero)
    next
      case False
      with 3 have "0 < ?s"
        by simp
      from round_double_mono_pos [OF this le] 3 le show ?thesis
        by (simp add: py_float_add_def Let_def)
    qed
  qed
qed

section \<open>Lazy expiry on read\<close>

text \<open>
  Claim C1. When the stored record of a session id has \<open>now > expires_at\<close>,
  \<^verbatim>\<open>get_session\<close> returns \<^verbatim>\<open>None\<close> and deletes the record: the store no longer holds
  the id, the database is the one \<^verbatim>\<open>delete_session\<close> leaves, and a second
  \<^verbatim>\<open>get_session\<close> on the same id, at any time, returns \<^verbatim>\<open>None\<close> again and changes
  nothing more.
\<close>

theorem get_session_expired_destroys:
  assumes "store_get_session sid d = Some s"
    and "now > expires_at s"
  shows "fst (get_session now touch sid d) = None
       \<and> snd (get_session now touch sid d) = store_delete_session sid d
       \<and> store_get_session sid (snd (get_session now touch sid d)) = None
       \<and> get_session now' touch' sid (snd (get_session now touch sid d))
            = (None, snd (get_session now touch sid d))"
  using assms
  by (simp add: get_session_def is_expired_def destroy_session_def store_get_session_delete)

theorem get_session_expired_destroys_witness:
  "store_get_session ''s1'' session_db = Some (session_of_row session_s1)
   \<and> (4000::rat) > expires_at (session_of_row session_s1)
   \<and> fst (get_session 4000 4001 ''s1'' session_db) = None
   \<and> snd (get_session 4000 4001 ''s1'' session_db) = empty_db
   \<and> get_session 5000 5001 ''s1'' (snd (get_session 4000 4001 ''s1'' session_db))
        = (None, empty_db)"
proof -
  have g: "store_get_session ''s1'' session_db = Some (session_of_row session_s1)"
    by (simp add: store_get_session_def session_db_def session_s1_def)
  have e: "(4000::rat) > expires_at (session_of_row session_s1)"
    by (simp add: session_s1_def)
  have del: "store_delete_session ''s1'' session_db = empty_db"
    by (simp add: store_delete_session_def session_db_def session_s1_def empty_db_def)
  note r = get_session_expired_destroys [OF g e, of 4001 5000 5001]
  from r have a: "fst (get_session 4000 4001 ''s1'' session_db) = None"
    by (rule conjunct1)
  from r del have b: "snd (get_session 4000 4001 ''s1'' session_db) = empty_db"
    by simp
  from r have "get_session 5000 5001 ''s1'' (snd (get_session 4000 4001 ''s1'' session_db))
                 = (None, snd (get_session 4000 4001 ''s1'' session_db))"
    by blast
  with b have c: "get_session 5000 5001 ''s1'' (snd (get_session 4000 4001 ''s1'' session_db))
                 = (None, empty_db)"
    by simp
  from g e a b c show ?thesis
    by (intro conjI)
qed

section \<open>The validity interval of a new session\<close>

lemma float_sum_0_10: "py_float_add 0 10 = 10"
  by code_simp

lemma float_sum_1_10: "py_float_add 1 10 = 11"
  by code_simp

lemma float_sum_one_fifth:
  "py_float_add 1700000000 (3602879701896397 / 18014398509481984) = 1700000000 + 838861 / 4194304"
  by code_simp

text \<open>
  Claim C2 as stated fails. \<^verbatim>\<open>create_session\<close> reads the clock twice: the manager
  computes \<^verbatim>\<open>expires_at\<close> from its own reading, and the store takes a second, later
  reading for \<^verbatim>\<open>created_at\<close>. When the manager reads 0 and the store reads 1, with
  timeout 10, the record has \<^verbatim>\<open>created_at = 1\<close> and \<^verbatim>\<open>expires_at = 10\<close>, and a probe at
  time 11, which is \<^verbatim>\<open>created_at + T\<close> (as an exact sum and as a float sum), finds the
  session expired.
\<close>

theorem probe_at_created_plus_timeout_counterexample:
  "create_session 10 ''tok'' 0 1 7 None None empty_db = Inr (''tok'', late_store_db)
   \<and> map_option created_at (store_get_session ''tok'' late_store_db) = Some 1
   \<and> (1::rat) \<le> 11 \<and> (11::rat) \<le> 1 + 10 \<and> 11 \<le> py_float_add 1 10
   \<and> fst (get_session 11 12 ''tok'' late_store_db) = None"
  by (simp add: create_session_def store_create_session_def empty_db_def late_store_db_def
        store_get_session_def get_session_def is_expired_def session_of_row_def
        float_sum_0_10 float_sum_1_10)

text \<open>
  Claim C2, amended. Creating a session under a fresh token with timeout \<open>T\<close> succeeds
  and stores a record with \<^verbatim>\<open>created_at\<close> the store's reading of the clock and
  \<^verbatim>\<open>expires_at\<close> the float sum of the manager's reading and \<open>T\<close>. A probe by
  \<^verbatim>\<open>get_session\<close> at any time \<open>t \<le> expires_at\<close> returns the session, the instant
  \<open>t = expires_at\<close> included (the comparison is the strict \<open>now > expires_at\<close>), and a
  probe at any \<open>t > expires_at\<close> returns \<^verbatim>\<open>None\<close>. Provided the manager's reading is
  not after the store's, \<^verbatim>\<open>expires_at\<close> is at most the float sum of \<^verbatim>\<open>created_at\<close> and
  \<open>T\<close>, and every probe after that sum returns \<^verbatim>\<open>None\<close>.
\<close>

theorem create_then_probe:
  assumes "store_get_session token d = None"
  shows "\<exists>d' s. create_session T token now store_now uid ip agent d = Inr (token, d')
          \<and> store_get_session token d' = Some s
          \<and> created_at s = store_now \<and> expires_at s = py_float_add now T
          \<and> (\<forall>t touch. fst (get_session t touch token d')
                          = (if t \<le> expires_at s then Some s else None))
          \<and> (now \<le> store_now \<longrightarrow>
                expires_at s \<le> py_float_add (created_at s) T
                \<and> (\<forall>t touch. py_float_add (created_at s) T < t \<longrightarrow>
                      fst (get_session t touch token d') = None))"
proof -
  let ?r = "\<lparr>session_id = token, user_id = uid, created_at = store_now,
               expires_at = py_float_add now T, last_activity = store_now,
               data = Some ([]::jdict), ip_address = ip, user_agent = agent\<rparr>"
  let ?d = "d\<lparr>sessions := sessions d @ [?r]\<rparr>"
  have c: "create_session T token now store_now uid ip agent d = Inr (token, ?d)"
    by (simp add: create_session_def store_create_session_fresh [OF assms])
  have g: "store_get_session token ?d = Some (session_of_row ?r)"
    by (rule store_get_session_appended [OF assms]) simp
  have p: "fst (get_session t touch token ?d)
             = (if t \<le> py_float_add now T then Some (session_of_row ?r) else None)"
    for t touch
    by (simp add: get_session_def g is_expired_def)
  have m: "py_float_add now T \<le> py_float_add store_now T" if "now \<le> store_now"
    using that by (rule py_float_add_mono)
  have q: "fst (get_session t touch token ?d) = None"
    if "now \<le> store_now" and "py_float_add store_now T < t" for t touch
    using m [OF that(1)] that(2) by (simp add: p)
  show ?thesis
    using c g p m q by (intro exI [of _ ?d] exI [of _ "session_of_row ?r"]) simp
qed

theorem create_then_probe_witness:
  "store_get_session ''tok'' empty_db = None
   \<and> create_session (3602879701896397 / 18014398509481984) ''tok''
         1700000000 (1700000000 + 1 / 1024) 7 None None empty_db = Inr (''tok'', float_sum_db)
   \<and> (1700000000::rat) \<le> 1700000000 + 1 / 1024
   \<and> (1700000000::rat) + 3602879701896397 / 18014398509481984 < 1700000000 + 838861 / 4194304
   \<and> (\<exists>s. store_get_session ''tok'' float_sum_db = Some s
          \<and> created_at s = 1700000000 + 1 / 1024
          \<and> expires_at s = 1700000000 + 838861 / 4194304
          \<and> expires_at s \<le> py_float_add (created_at s) (3602879701896397 / 18014398509481984)
          \<and> fst (get_session (1700000000 + 838861 / 4194304) (1700000001) ''tok'' float_sum_db) = Some s
          \<and> fst (get_session (1700000000 + 838862 / 4194304) (1700000001) ''tok'' float_sum_db) = None
          \<and> fst (get_session (1700000001) (1700000001) ''tok'' float_sum_db) = None)"
proof -
  let ?T = "3602879701896397 / 18014398509481984 :: rat"
  let ?now = "1700000000 :: rat" and ?store = "1700000000 + 1 / 1024 :: rat"
  have fresh: "store_get_session ''tok'' empty_db = None"
    by (simp add: store_get_session_def empty_db_def)
  have c: "create_session ?T ''tok'' ?now ?store 7 None None empty_db = Inr (''tok'', float_sum_db)"
    by (simp add: create_session_def store_create_session_def empty_db_def float_sum_db_def
          float_sum_one_fifth)
  have le: "?now \<le> ?store"
    by simp
  from create_then_probe [OF fresh, of ?T ?now ?store 7 None None]
  obtain d' s where
    "create_session ?T ''tok'' ?now ?store 7 None None empty_db = Inr (''tok'', d')"
    and g: "store_get_session ''tok'' d' = Some s"
    and f: "created_at s = ?store" "expires_at s = py_float_add ?now ?T"
    and p: "\<And>t touch. fst (get_session t touch ''tok'' d')
               = (if t \<le> expires_at s then Some s else None)"
    and m: "?now \<le> ?store \<longrightarrow> expires_at s \<le> py_float_add (created_at s) ?T"
    by blast
  with c have d': "d' = float_sum_db"
    by simp
  from m le have b: "expires_at s \<le> py_float_add (created_at s) ?T"
    by (rule mp)
  have x: "?now + ?T < 1700000000 + 838861 / 4194304"
    by simp
  from f(2) have e: "expires_at s = 1700000000 + 838861 / 4194304"
    by (simp only: float_sum_one_fifth)
  from p [of "1700000000 + 838861 / 4194304" 1700000001]
       p [of "1700000000 + 838862 / 4194304" 1700000001]
       p [of 1700000001 1700000001] e
  have "fst (get_session (1700000000 + 838861 / 4194304) 1700000001 ''tok'' d') = Some s"
    "fst (get_session (1700000000 + 838862 / 4194304) 1700000001 ''tok'' d') = None"
    "fst (get_session 1700000001 1700000001 ''tok'' d') = None"
    by simp_all
  with g f(1) e b d' have "\<exists>s. store_get_session ''tok'' float_sum_db = Some s
          \<and> created_at s = 1700000000 + 1 / 1024
          \<and> expires_at s = 1700000000 + 838861 / 4194304
          \<and> expires_at s \<le> py_float_add (created_at s) ?T
          \<and> fst (get_session (1700000000 + 838861 / 4194304) (1700000001) ''tok'' float_sum_db) = Some s
          \<and> fst (get_session (1700000000 + 838862 / 4194304) (1700000001) ''tok'' float_sum_db) = None
          \<and> fst (get_session (1700000001) (1700000001) ''tok'' float_sum_db) = None"
    by (intro exI [of _ s]) simp
  with fresh c le x show ?thesis
    by blast
qed

section \<open>Session data\<close>

text \<open>
  Claim C3 as stated fails for a record that is expired but still stored.
  \<^verbatim>\<open>set_session_data\<close> reads the record with the store's \<^verbatim>\<open>get_session\<close>, which makes
  no expiry check: the session \<open>s1\<close> expired at time 3700, and at time 4000
  \<^verbatim>\<open>set_session_data\<close> still changes the stored state.
\<close>

theorem set_session_data_expired_counterexample:
  "store_get_session ''s1'' session_db = Some (session_of_row session_s1)
   \<and> (4000::rat) > expires_at (session_of_row session_s1)
   \<and> set_session_data ''s1'' ''k'' (JInt 1) session_db \<noteq> session_db"
  by (simp add: store_get_session_def session_db_def session_s1_def set_session_data_def
        store_set_session_data_def session_of_row_def)

text \<open>
  Claim C3, amended. For a session id missing from the store \<^verbatim>\<open>set_session_data\<close>
  returns normally and leaves the stored state unchanged. For a record that is stored,
  expired or not, it writes the record's data with the value put under the key, and
  the record read back holds that data.
\<close>

theorem set_session_data_effect:
  "(store_get_session sid d = None \<longrightarrow> set_session_data sid k v d = d)
   \<and> (\<forall>s. store_get_session sid d = Some s \<longrightarrow>
          set_session_data sid k v d = store_set_session_data sid (dict_set k v (data s)) d
          \<and> store_get_session sid (set_session_data sid k v d)
               = Some (s\<lparr>data := dict_set k v (data s)\<rparr>))"
  by (simp add: set_session_data_def store_get_session_set_data)

theorem set_session_data_effect_witness:
  "store_get_session ''s9'' session_db = None
   \<and> set_session_data ''s9'' ''k'' (JInt 1) session_db = session_db
   \<and> store_get_session ''s1'' session_db = Some (session_of_row session_s1)
   \<and> store_get_session ''s1'' (set_session_data ''s1'' ''k'' (JInt 1) session_db)
        = Some ((session_of_row session_s1)\<lparr>data := [(''cart'', cart), (''k'', JInt 1)]\<rparr>)"
proof -
  have n: "store_get_session ''s9'' session_db = None"
    by (simp add: store_get_session_def session_db_def session_s1_def)
  have g: "store_get_session ''s1'' session_db = Some (session_of_row session_s1)"
    by (simp add: store_get_session_def session_db_def session_s1_def)
  have u: "dict_set ''k'' (JInt 1) (data (session_of_row session_s1)) = [(''cart'', cart), (''k'', JInt 1)]"
    by (simp add: session_s1_def)
  note t = set_session_data_effect [of "''s9''" session_db "''k''" "JInt 1"]
  note t' = set_session_data_effect [of "''s1''" session_db "''k''" "JInt 1"]
  from t n have a: "set_session_data ''s9'' ''k'' (JInt 1) session_db = session_db"
    by blast
  from t' g have "store_get_session ''s1'' (set_session_data ''s1'' ''k'' (JInt 1) session_db)
        = Some ((session_of_row session_s1)\<lparr>data := dict_set ''k'' (JInt 1) (data (session_of_row session_s1))\<rparr>)"
    by blast
  with u have b: "store_get_session ''s1'' (set_session_data ''s1'' ''k'' (JInt 1) session_db)
        = Some ((session_of_row session_s1)\<lparr>data := [(''cart'', cart), (''k'', JInt 1)]\<rparr>)"
    by simp
  from n a g b show ?thesis
    by blast
qed

text \<open>
  Claim C4. For a stored record that is expired, \<^verbatim>\<open>get_session_data\<close> returns the
  value stored under a key that is present, not the default, and leaves the database
  as it was: the record is neither deleted nor refreshed.
\<close>

theorem get_session_data_ignores_expiry:
  assumes "store_get_session sid d = Some s"
    and "is_expired now s"
    and "map_of (data s) k = Some v"
  shows "get_session_data sid k dflt d = (v, d)
       \<and> store_get_session sid (snd (get_session_data sid k dflt d)) = Some s"
  using assms by (simp add: get_session_data_def dict_get_def)

theorem get_session_data_ignores_expiry_witness:
  "store_get_session ''s1'' session_db = Some (session_of_row session_s1)
   \<and> is_expired 4000 (session_of_row session_s1)
   \<and> map_of (data (session_of_row session_s1)) ''cart'' = Some cart
   \<and> get_session_data ''s1'' ''cart'' JNull session_db = (cart, session_db)"
proof -
  have g: "store_get_session ''s1'' session_db = Some (session_of_row session_s1)"
    by (simp add: store_get_session_def session_db_def session_s1_def)
  have e: "is_expired 4000 (session_of_row session_s1)"
    by (simp add: is_expired_def session_s1_def)
  have m: "map_of (data (session_of_row session_s1)) ''cart'' = Some cart"
    by (simp add: session_s1_def)
  from get_session_data_ignores_expiry [OF g e m, of JNull] g e m show ?thesis
    by blast
qed

text \<open>
  Claim C6. For a stored session (expired or not: neither operation checks expiry),
  every key and every JSON value, \<^verbatim>\<open>set_session_data\<close> followed by \<^verbatim>\<open>get_session_data\<close>
  with the same key returns the value written, whatever the default.
\<close>

theorem set_then_get_session_data:
  assumes "store_get_session sid d = Some s"
  shows "fst (get_session_data sid k dflt (set_session_data sid k v d)) = v"
  using assms
  by (simp add: get_session_data_def set_session_data_def store_get_session_set_data
        dict_get_dict_set)

theorem set_then_get_session_data_witness:
  "store_get_session ''s1'' session_db = Some (session_of_row session_s1)
   \<and> \<not> is_expired 200 (session_of_row session_s1)
   \<and> fst (get_session_data ''s1'' ''wishlist'' JNull
            (set_session_data ''s1'' ''wishlist'' (JArr [JStr ''Laptop'', JInt 2, JBool True]) session_db))
        = JArr [JStr ''Laptop'', JInt 2, JBool True]"
proof -
  have g: "store_get_session ''s1'' session_db = Some (session_of_row session_s1)"
    by (simp add: store_get_session_def session_db_def session_s1_def)
  have e: "\<not> is_expired 200 (session_of_row session_s1)"
    by (simp add: is_expired_def session_s1_def)
  from set_then_get_session_data [OF g, of "''wishlist''" JNull "JArr [JStr ''Laptop'', JInt 2, JBool True]"] g e
  show ?thesis
    by blast
qed

section \<open>Invariants of a stored session record\<close>

lemma exec_op_absent:
  assumes "store_get_session sid d = None"
  shows "store_get_session sid (exec_op op d) = None"
  using assms
  by (cases op)
     (auto simp: get_session_def validate_session_def set_session_data_def get_session_data_def
        destroy_session_def store_get_session_delete store_get_session_update_activity
        store_get_session_set_data split: option.splits prod.splits)

lemma exec_op_record:
  assumes "store_get_session sid d = Some s"
    and "store_get_session sid (exec_op op d) = Some s'"
  shows "expires_at s' = expires_at s
       \<and> last_activity s' \<in> insert (last_activity s) (set (clock_readings op))"
  using assms
  by (cases op)
     (auto simp: get_session_def validate_session_def set_session_data_def get_session_data_def
        destroy_session_def store_get_session_delete store_get_session_update_activity
        store_get_session_set_data split: option.splits prod.splits if_splits)

lemma exec_ops_absent:
  "store_get_session sid d = None \<Longrightarrow> store_get_session sid (exec_ops ops d) = None"
  unfolding exec_ops_def
  by (induction ops arbitrary: d) (simp_all add: exec_op_absent)

lemma exec_ops_record:
  assumes "store_get_session sid d = Some s"
    and "store_get_session sid (exec_ops ops d) = Some s'"
  shows "expires_at s' = expires_at s
       \<and> last_activity s' \<in> insert (last_activity s) (set (concat (map clock_readings ops)))"
  using assms
proof (induction ops arbitrary: d s)
  case Nil
  then show ?case by (simp add: exec_ops_def)
next
  case (Cons op ops)
  from Cons.prems(2) have fin: "store_get_session sid (exec_ops ops (exec_op op d)) = Some s'"
    by (simp add: exec_ops_def)
  show ?case
  proof (cases "store_get_session sid (exec_op op d)")
    case None
    with exec_ops_absent [of sid "exec_op op d" ops] fin show ?thesis
      by simp
  next
    case (Some s1)
    from exec_op_record [OF Cons.prems(1) Some]
    have 1: "expires_at s1 = expires_at s"
      and 2: "last_activity s1 \<in> insert (last_activity s) (set (clock_readings op))"
      by simp_all
    from Cons.IH [OF Some fin]
    have 3: "expires_at s' = expires_at s1"
      and 4: "last_activity s' \<in> insert (last_activity s1) (set (concat (map clock_readings ops)))"
      by simp_all
    from 1 2 3 4 show ?thesis
      by auto
  qed
qed

lemma exec_ops_append: "exec_ops (ops1 @ ops2) d = exec_ops ops2 (exec_ops ops1 d)"
  by (simp add: exec_ops_def)

text \<open>
  Claim C5 as stated fails for \<^verbatim>\<open>last_activity\<close>. \<^verbatim>\<open>update_session_activity\<close>
  overwrites it with the reading of the wall clock, whatever the stored value: on the
  session \<open>s1\<close>, last active at 100, a \<^verbatim>\<open>get_session\<close> that reads the clock at 40 and
  50 leaves \<^verbatim>\<open>last_activity = 50\<close>.
\<close>

theorem last_activity_clock_back_counterexample:
  "map_option last_activity (store_get_session ''s1'' session_db) = Some 100
   \<and> map_option last_activity
         (store_get_session ''s1'' (exec_ops [OpGet 40 50 ''s1''] session_db)) = Some 50
   \<and> (50::rat) < 100"
proof -
  have g: "store_get_session ''s1'' session_db = Some (session_of_row session_s1)"
    by (simp add: store_get_session_def session_db_def session_s1_def)
  have "store_get_session ''s1'' (exec_ops [OpGet 40 50 ''s1''] session_db)
          = Some ((session_of_row session_s1)\<lparr>last_activity := 50\<rparr>)"
    by (simp add: exec_ops_def get_session_def is_expired_def store_get_session_update_activity g
          session_s1_def)
  with g show ?thesis
    by (simp add: session_s1_def)
qed

text \<open>
  Claim C5, amended. Take a stored session record and any sequence of operations (get,
  validate, set data, get data, the store's activity refresh and data write, on any
  session ids), split at any point into two runs. As long as the record is stored, its
  \<^verbatim>\<open>expires_at\<close> is the one it had at the start, and its \<^verbatim>\<open>last_activity\<close> is the
  earlier value or one of the clock readings made since. When the clock readings,
  starting from the record's \<^verbatim>\<open>last_activity\<close>, are in non-decreasing order,
  \<^verbatim>\<open>last_activity\<close> does not decrease from the start to the split point and from there
  to the end.
\<close>

theorem expires_at_fixed_last_activity_from_clock:
  assumes "store_get_session sid d = Some s"
    and "store_get_session sid (exec_ops ops1 d) = Some s1"
    and "store_get_session sid (exec_ops (ops1 @ ops2) d) = Some s2"
  shows "expires_at s1 = expires_at s \<and> expires_at s2 = expires_at s
       \<and> last_activity s1 \<in> insert (last_activity s) (set (concat (map clock_readings ops1)))
       \<and> last_activity s2 \<in> insert (last_activity s1) (set (concat (map clock_readings ops2)))
       \<and> (sorted (last_activity s # concat (map clock_readings (ops1 @ ops2))) \<longrightarrow>
            last_activity s \<le> last_activity s1 \<and> last_activity s1 \<le> last_activity s2)"
proof -
  let ?r1 = "concat (map clock_readings ops1)" and ?r2 = "concat (map clock_readings ops2)"
  from exec_ops_record [OF assms(1,2)]
  have e1: "expires_at s1 = expires_at s" and l1: "last_activity s1 \<in> insert (last_activity s) (set ?r1)"
    by simp_all
  from assms(3) have "store_get_session sid (exec_ops ops2 (exec_ops ops1 d)) = Some s2"
    by (simp add: exec_ops_append)
  from exec_ops_record [OF assms(2) this]
  have e2: "expires_at s2 = expires_at s1" and l2: "last_activity s2 \<in> insert (last_activity s1) (set ?r2)"
    by simp_all
  have mono: "last_activity s \<le> last_activity s1 \<and> last_activity s1 \<le> last_activity s2"
    if "sorted (last_activity s # concat (map clock_readings (ops1 @ ops2)))"
  proof -
    from that have srt: "sorted ((last_activity s # ?r1) @ ?r2)"
      by simp
    from srt l1 have a: "last_activity s \<le> last_activity s1"
      by auto
    from srt l1 l2 have b: "last_activity s1 \<le> last_activity s2"
      unfolding sorted_append by auto
    from a b show ?thesis ..
  qed
  from e1 e2 l1 l2 mono show ?thesis
    by simp
qed

theorem expires_at_fixed_last_activity_from_clock_witness:
  "store_get_session ''s1'' session_db = Some (session_of_row session_s1)
   \<and> sorted (last_activity (session_of_row session_s1)
               # concat (map clock_readings (ops_before @ ops_after)))
   \<and> map_option expires_at (store_get_session ''s1'' (exec_ops ops_before session_db)) = Some 3700
   \<and> map_option last_activity (store_get_session ''s1'' (exec_ops ops_before session_db)) = Some 201
   \<and> map_option expires_at (store_get_session ''s1'' (exec_ops (ops_before @ ops_after) session_db)) = Some 3700
   \<and> map_option last_activity (store_get_session ''s1'' (exec_ops (ops_before @ ops_after) session_db)) = Some 401
   \<and> (100::rat) \<le> 201 \<and> (201::rat) \<le> 401"
proof -
  let ?s1 = "(session_of_row session_s1)\<lparr>last_activity := 201, data := [(''cart'', cart), (''k'', JInt 1)]\<rparr>"
  let ?s2 = "(session_of_row session_s1)\<lparr>last_activity := 401, data := []\<rparr>"
  have g: "store_get_session ''s1'' session_db = Some (session_of_row session_s1)"
    by (simp add: store_get_session_def session_db_def session_s1_def)
  have srt: "sorted (last_activity (session_of_row session_s1)
               # concat (map clock_readings (ops_before @ ops_after)))"
    by (simp add: ops_before_def ops_after_def session_s1_def)
  have g1: "store_get_session ''s1'' (exec_ops ops_before session_db) = Some ?s1"
    by (simp add: exec_ops_def ops_before_def get_session_def set_session_data_def is_expired_def
          store_get_session_update_activity store_get_session_set_data g session_s1_def session_of_row_def)
  have g2: "store_get_session ''s1'' (exec_ops (ops_before @ ops_after) session_db) = Some ?s2"
    by (simp add: exec_ops_def ops_before_def ops_after_def get_session_def set_session_data_def
          is_expired_def validate_session_def get_session_data_def
          store_get_session_update_activity store_get_session_set_data g session_s1_def session_of_row_def)
  note t = expires_at_fixed_last_activity_from_clock [OF g g1 g2]
  from t srt have m: "last_activity (session_of_row session_s1) \<le> last_activity ?s1
                    \<and> last_activity ?s1 \<le> last_activity ?s2"
    by blast
  from t have e: "expires_at ?s1 = expires_at (session_of_row session_s1)"
    "expires_at ?s2 = expires_at (session_of_row session_s1)"
    by blast+
  from m e g srt g1 g2 show ?thesis
    by (simp add: session_s1_def)
qed

section \<open>Conversion funnel\<close>

text \<open>The float model on known values: the double nearest to \<open>1/10\<close>, the product
  \<^verbatim>\<open>0.07 * 100\<close>, which Python prints as \<^verbatim>\<open>7.000000000000001\<close>, and two ties of
  \<^verbatim>\<open>:.2f\<close>.\<close>

lemma double_one_tenth: "py_true_divide 1 10 = 3602879701896397 / 2 ^ 55"
  by code_simp

lemma double_7_percent: "py_float_mul (py_true_divide 7 100) 100 = 7 + 1 / 2 ^ 50"
  by code_simp

lemma format_2f_ties: "format_2f (1 / 8) = ''0.12''" "format_2f (3 / 8) = ''0.38''"
  by code_simp+

lemma rate_4_of_10: "py_float_mul (py_true_divide 4 10) 100 = 40"
  by code_simp

lemma rate_2_of_4: "py_float_mul (py_true_divide 2 4) 100 = 50"
  by code_simp

lemma format_2f_40: "format_2f 40 = ''40.00''"
  by code_simp

lemma format_2f_50: "format_2f 50 = ''50.00''"
  by code_simp

lemma range_3: "[1..<3] = [Suc 0, Suc (Suc 0)]"
  by code_simp

text \<open>
  Claim C8. For a funnel over steps \<open>[a, b, c]\<close> whose distinct-user counts are 10, 4
  and 2, the result has the entry of \<open>a\<close> without a conversion rate, the rate
  \<^verbatim>\<open>40.00%\<close> at \<open>b\<close> and the rate \<^verbatim>\<open>50.00%\<close> at \<open>c\<close>.
\<close>

theorem funnel_10_4_2:
  assumes "count_distinct_users a d = 10"
    and "count_distinct_users b d = 4"
    and "count_distinct_users c d = 2"
  shows "get_conversion_funnel [a, b, c] d =
           [\<lparr>step = a, users = 10, conversion_rate = None\<rparr>,
            \<lparr>step = b, users = 4, conversion_rate = Some ''40.00%''\<rparr>,
            \<lparr>step = c, users = 2, conversion_rate = Some ''50.00%''\<rparr>]"
  using assms
  by (simp add: get_conversion_funnel_def range_3 funnel_rate_step_def rate_4_of_10 rate_2_of_4
        format_2f_40 format_2f_50 Let_def)

lemma funnel_db_view: "count_distinct_users ''view'' funnel_db = 10"
  by (simp add: count_distinct_users_def funnel_db_def event_def)
lemma funnel_db_cart: "count_distinct_users ''cart'' funnel_db = 4"
  by (simp add: count_distinct_users_def funnel_db_def event_def)
lemma funnel_db_buy: "count_distinct_users ''buy'' funnel_db = 2"
  by (simp add: count_distinct_users_def funnel_db_def event_def)

theorem funnel_10_4_2_witness:
  "count_distinct_users ''view'' funnel_db = 10
   \<and> count_distinct_users ''cart'' funnel_db = 4
   \<and> count_distinct_users ''buy'' funnel_db = 2
   \<and> get_conversion_funnel [''view'', ''cart'', ''buy''] funnel_db =
           [\<lparr>step = ''view'', users = 10, conversion_rate = None\<rparr>,
            \<lparr>step = ''cart'', users = 4, conversion_rate = Some ''40.00%''\<rparr>,
            \<lparr>step = ''buy'', users = 2, conversion_rate = Some ''50.00%''\<rparr>]"
  using funnel_10_4_2 [OF funnel_db_view funnel_db_cart funnel_db_buy]
    funnel_db_view funnel_db_cart funnel_db_buy by simp


section \<open>User journey\<close>

lemma mset_take_subseteq: "mset (take n xs) \<subseteq># mset xs"
proof -
  have "mset xs = mset (take n xs) + mset (drop n xs)"
    by (metis append_take_drop_id mset_append)
  then show ?thesis
    by simp
qed

lemma journey_entry_timestamp: "map je_timestamp (map journey_entry rows) = map timestamp rows"
  by (simp add: journey_entry_def comp_def)

text \<open>
  Claim C7 as stated fails when the session id passed is the empty string. The guard
  \<^verbatim>\<open>if session_id:\<close> is false for it, the unscoped query runs, and the events of
  every session of the user come back, although no event belongs to the pair of user 1
  and session \<^verbatim>\<open>''\<close>.
\<close>

theorem journey_empty_session_id_counterexample:
  "get_user_journey 1 (Some '''') journey_db =
     [\<lparr>je_event_type = ''login'', je_event_data = JObj [], je_timestamp = 10\<rparr>,
      \<lparr>je_event_type = ''click'', je_event_data = JObj [], je_timestamp = 20\<rparr>,
      \<lparr>je_event_type = ''page_view'', je_event_data = JObj [], je_timestamp = 30\<rparr>]
   \<and> filter (\<lambda>a. act_user_id a = 1 \<and> act_session_id a = Some '''') (activities journey_db) = []"
  by (simp add: get_user_journey_def journey_db_def event_def journey_entry_def)

text \<open>
  Claim C7, amended. Without a session id, \<^verbatim>\<open>get_user_journey\<close> returns at most 100
  events in ascending timestamp order: events of the user, all of them when the user
  has at most 100. An empty session id is treated as no session id. With a non-empty
  session id it returns, in ascending timestamp order and with no cap, exactly the
  events of that user and session: as a multiset, the entries of the rows of the pair.
\<close>

theorem journey_order_and_scope:
  "length (get_user_journey uid None d) \<le> 100
   \<and> length (get_user_journey uid None d)
       = min 100 (length (filter (\<lambda>a. act_user_id a = uid) (activities d)))
   \<and> sorted (map je_timestamp (get_user_journey uid None d))
   \<and> mset (get_user_journey uid None d) \<subseteq>#
       image_mset journey_entry (filter_mset (\<lambda>a. act_user_id a = uid) (mset (activities d)))
   \<and> get_user_journey uid (Some '''') d = get_user_journey uid None d
   \<and> (s \<noteq> '''' \<longrightarrow>
        sorted (map je_timestamp (get_user_journey uid (Some s) d))
        \<and> mset (get_user_journey uid (Some s) d) =
            image_mset journey_entry
              (filter_mset (\<lambda>a. act_user_id a = uid \<and> act_session_id a = Some s) (mset (activities d))))"
proof -
  let ?user = "sort_key timestamp (filter (\<lambda>a. act_user_id a = uid) (activities d))"
  let ?pair = "sort_key timestamp (filter (\<lambda>a. act_user_id a = uid \<and> act_session_id a = Some s) (activities d))"
  have u: "get_user_journey uid None d = map journey_entry (take 100 ?user)"
    by (simp add: get_user_journey_def)
  have e: "get_user_journey uid (Some '''') d = get_user_journey uid None d"
    by (simp add: get_user_journey_def)
  have l: "length (get_user_journey uid None d)
             = min 100 (length (filter (\<lambda>a. act_user_id a = uid) (activities d)))"
    by (simp add: u min.commute)
  have "sorted (map timestamp ?user)"
    by (rule sorted_sort_key)
  then have "sorted (take 100 (map timestamp ?user))"
    by (rule sorted_wrt_take)
  then have su: "sorted (map je_timestamp (get_user_journey uid None d))"
    unfolding u journey_entry_timestamp by (simp add: take_map)
  have "mset (take 100 ?user) \<subseteq># mset ?user"
    by (rule mset_take_subseteq)
  then have "image_mset journey_entry (mset (take 100 ?user)) \<subseteq># image_mset journey_entry (mset ?user)"
    by (rule image_mset_subseteq_mono)
  then have mu: "mset (get_user_journey uid None d) \<subseteq>#
       image_mset journey_entry (filter_mset (\<lambda>a. act_user_id a = uid) (mset (activities d)))"
    by (simp add: u)
  have p: "get_user_journey uid (Some s) d = map journey_entry ?pair" if "s \<noteq> ''''"
    using that by (simp add: get_user_journey_def)
  have sp: "sorted (map je_timestamp (map journey_entry ?pair))"
    unfolding journey_entry_timestamp by (rule sorted_sort_key)
  have mp: "mset (map journey_entry ?pair) =
            image_mset journey_entry
              (filter_mset (\<lambda>a. act_user_id a = uid \<and> act_session_id a = Some s) (mset (activities d)))"
    by simp
  from l have l': "length (get_user_journey uid None d) \<le> 100"
    by simp
  from l l' e su mu p sp mp show ?thesis
    by simp
qed

theorem journey_order_and_scope_witness:
  "''abc'' \<noteq> ''''
   \<and> get_user_journey 1 (Some ''abc'') journey_db =
     [\<lparr>je_event_type = ''login'', je_event_data = JObj [], je_timestamp = 10\<rparr>,
      \<lparr>je_event_type = ''page_view'', je_event_data = JObj [], je_timestamp = 30\<rparr>]
   \<and> sorted (map je_timestamp (get_user_journey 1 (Some ''abc'') journey_db))
   \<and> mset (get_user_journey 1 (Some ''abc'') journey_db) =
            image_mset journey_entry
              (filter_mset (\<lambda>a. act_user_id a = 1 \<and> act_session_id a = Some ''abc'')
                 (mset (activities journey_db)))
   \<and> length (get_user_journey 1 None journey_db) \<le> 100
   \<and> sorted (map je_timestamp (get_user_journey 1 None journey_db))"
proof -
  have n: "''abc'' \<noteq> ''''"
    by simp
  have v: "get_user_journey 1 (Some ''abc'') journey_db =
     [\<lparr>je_event_type = ''login'', je_event_data = JObj [], je_timestamp = 10\<rparr>,
      \<lparr>je_event_type = ''page_view'', je_event_data = JObj [], je_timestamp = 30\<rparr>]"
    by (simp add: get_user_journey_def journey_db_def event_def journey_entry_def)
  from journey_order_and_scope [of 1 journey_db "''abc''"] n v show ?thesis
    by blast
qed

section \<open>Retention sweep\<close>

text \<open>
  Claim C9. With \<^verbatim>\<open>retention_days = 90\<close> the sweep keeps, in \<^verbatim>\<open>activities\<close>, the rows
  whose \<^verbatim>\<open>timestamp\<close> is at least \<open>now - 90 * 86400\<close> and, in \<^verbatim>\<open>sessions\<close>, the rows
  whose \<^verbatim>\<open>created_at\<close> is at least \<open>now - 90 * 86400\<close>, unchanged and in order, and
  deletes the rows strictly below; the counts returned are those of the deleted rows
  and the other tables are untouched. Each deletion takes \<open>now\<close> from its own reading
  of the clock.
\<close>

theorem retention_sweep_90:
  "apply_retention_policy 90 now_activities now_sessions now_summary d =
     (\<lparr>activities_deleted =
         length (filter (\<lambda>a. timestamp a < now_activities - 90 * 86400) (activities d)),
       sessions_deleted =
         length (filter (\<lambda>r. created_at r < now_sessions - 90 * 86400) (sessions d)),
       summary_retention_days = 90, applied_at = now_summary\<rparr>,
      d\<lparr>activities := filter (\<lambda>a. now_activities - 90 * 86400 \<le> timestamp a) (activities d),
        sessions := filter (\<lambda>r. now_sessions - 90 * 86400 \<le> created_at r) (sessions d)\<rparr>)"
  by (simp add: apply_retention_policy_def delete_old_activities_def delete_old_sessions_def
        Let_def not_less)

theorem retention_sweep_90_witness:
  "apply_retention_policy 90 7777000 7777000 7777001 retention_db =
     (\<lparr>activities_deleted = 2, sessions_deleted = 1, summary_retention_days = 90,
       applied_at = 7777001\<rparr>,
      \<lparr>sessions =
        [session_s1\<lparr>session_id := ''edge'', created_at := 1000\<rparr>,
         session_s1\<lparr>session_id := ''new'', created_at := 5000\<rparr>],
       activities = [event 2 1 None ''click'' 1000],
       preference_rows = [], consent = []\<rparr>)"
  using retention_sweep_90 [of 7777000 7777000 7777001 retention_db]
  by (simp add: retention_db_def session_s1_def event_def)

section \<open>GDPR export and erasure\<close>

text \<open>
  Claim C10. For a user with no row in \<^verbatim>\<open>preferences\<close>, \<^verbatim>\<open>export_user_data\<close> returns the
  export with the empty mapping \<^verbatim>\<open>{}\<close> as preferences. For a user with no row in any
  table, \<^verbatim>\<open>delete_user_data\<close> returns a summary whose four counts are zero and leaves
  the database as it was.
\<close>

theorem gdpr_no_rows:
  "(uid \<notin> pref_user_id ` set (preference_rows d) \<longrightarrow>
      export_user_data uid now d =
        \<lparr>export_user_id = uid, export_date = now,
         export_sessions = filter (\<lambda>r. user_id r = uid) (sessions d),
         export_activities = filter (\<lambda>a. act_user_id a = uid) (activities d),
         export_preferences = JObj [],
         export_consent = filter (\<lambda>c. consent_user_id c = uid) (consent d)\<rparr>)
   \<and> (uid \<notin> user_id ` set (sessions d)
        \<and> uid \<notin> act_user_id ` set (activities d)
        \<and> uid \<notin> pref_user_id ` set (preference_rows d)
        \<and> uid \<notin> consent_user_id ` set (consent d) \<longrightarrow>
      delete_user_data uid now d =
        (\<lparr>deleted_user_id = uid, gdpr_sessions_deleted = 0, gdpr_activities_deleted = 0,
          preferences_deleted = 0, consent_deleted = 0, deleted_at = now\<rparr>, d))"
proof (intro conjI impI)
  assume "uid \<notin> pref_user_id ` set (preference_rows d)"
  then have "find (\<lambda>p. pref_user_id p = uid) (preference_rows d) = None"
    by (auto simp: find_None_iff)
  then show "export_user_data uid now d =
        \<lparr>export_user_id = uid, export_date = now,
         export_sessions = filter (\<lambda>r. user_id r = uid) (sessions d),
         export_activities = filter (\<lambda>a. act_user_id a = uid) (activities d),
         export_preferences = JObj [],
         export_consent = filter (\<lambda>c. consent_user_id c = uid) (consent d)\<rparr>"
    by (simp add: export_user_data_def)
next
  assume a: "uid \<notin> user_id ` set (sessions d)
        \<and> uid \<notin> act_user_id ` set (activities d)
        \<and> uid \<notin> pref_user_id ` set (preference_rows d)
        \<and> uid \<notin> consent_user_id ` set (consent d)"
  then have "filter (\<lambda>r. user_id r = uid) (sessions d) = []"
    "filter (\<lambda>a. act_user_id a = uid) (activities d) = []"
    "filter (\<lambda>p. pref_user_id p = uid) (preference_rows d) = []"
    "filter (\<lambda>c. consent_user_id c = uid) (consent d) = []"
    "filter (\<lambda>r. user_id r \<noteq> uid) (sessions d) = sessions d"
    "filter (\<lambda>a. act_user_id a \<noteq> uid) (activities d) = activities d"
    "filter (\<lambda>p. pref_user_id p \<noteq> uid) (preference_rows d) = preference_rows d"
    "filter (\<lambda>c. consent_user_id c \<noteq> uid) (consent d) = consent d"
    by (auto simp: filter_empty_conv filter_id_conv)
  then show "delete_user_data uid now d =
        (\<lparr>deleted_user_id = uid, gdpr_sessions_deleted = 0, gdpr_activities_deleted = 0,
          preferences_deleted = 0, consent_deleted = 0, deleted_at = now\<rparr>, d)"
    by (simp add: delete_user_data_def)
qed

theorem gdpr_no_rows_witness:
  "42 \<notin> pref_user_id ` set (preference_rows gdpr_db)
   \<and> export_user_data 42 1000 gdpr_db =
        \<lparr>export_user_id = 42, export_date = 1000, export_sessions = [], export_activities = [],
         export_preferences = JObj [], export_consent = []\<rparr>
   \<and> 42 \<notin> user_id ` set (sessions gdpr_db)
   \<and> 42 \<notin> act_user_id ` set (activities gdpr_db)
   \<and> 42 \<notin> consent_user_id ` set (consent gdpr_db)
   \<and> delete_user_data 42 1000 gdpr_db =
        (\<lparr>deleted_user_id = 42, gdpr_sessions_deleted = 0, gdpr_activities_deleted = 0,
          preferences_deleted = 0, consent_deleted = 0, deleted_at = 1000\<rparr>, gdpr_db)"
proof -
  have p: "42 \<notin> pref_user_id ` set (preference_rows gdpr_db)"
    by (simp add: gdpr_db_def)
  have r: "42 \<notin> user_id ` set (sessions gdpr_db)"
    by (simp add: gdpr_db_def session_s1_def)
  have a: "42 \<notin> act_user_id ` set (activities gdpr_db)"
    by (simp add: gdpr_db_def event_def)
  have c: "42 \<notin> consent_user_id ` set (consent gdpr_db)"
    by (simp add: gdpr_db_def)
  have f: "filter (\<lambda>r. user_id r = 42) (sessions gdpr_db) = []"
    "filter (\<lambda>a. act_user_id a = 42) (activities gdpr_db) = []"
    "filter (\<lambda>c. consent_user_id c = 42) (consent gdpr_db) = []"
    by (simp_all add: gdpr_db_def session_s1_def event_def)
  note t = gdpr_no_rows [of 42 gdpr_db 1000]
  from t p f have e: "export_user_data 42 1000 gdpr_db =
        \<lparr>export_user_id = 42, export_date = 1000, export_sessions = [], export_activities = [],
         export_preferences = JObj [], export_consent = []\<rparr>"
    by simp
  from t p r a c have d: "delete_user_data 42 1000 gdpr_db =
        (\<lparr>deleted_user_id = 42, gdpr_sessions_deleted = 0, gdpr_activities_deleted = 0,
          preferences_deleted = 0, consent_deleted = 0, deleted_at = 1000\<rparr>, gdpr_db)"
    by blast
  from p e r a c d show ?thesis
    by blast
qed

end
